theory Spec2Isabelle
  imports Complex_Main
begin

section \<open>Arithmetic of the C++ \<^verbatim>\<open>float\<close> values\<close>

text \<open>
  The estimator computes with \<^verbatim>\<open>float\<close>. A value is a finite number, one of the two
  infinities, or NaN. Finite results are kept exact: rounding, overflow to an infinity and
  the sign of zero are not modelled. Division by zero and the arithmetic of the special
  values follow IEEE 754, since the code can reach them (a division by a sample count
  of zero).
\<close>

datatype cfloat = Fin real | PInf | NInf | NaN

fun fneg :: "cfloat \<Rightarrow> cfloat" where
  "fneg (Fin a) = Fin (- a)"
| "fneg PInf = NInf"
| "fneg NInf = PInf"
| "fneg NaN = NaN"

fun fadd :: "cfloat \<Rightarrow> cfloat \<Rightarrow> cfloat" where
  "fadd NaN _ = NaN"
| "fadd _ NaN = NaN"
| "fadd (Fin a) (Fin b) = Fin (a + b)"
| "fadd PInf NInf = NaN"
| "fadd NInf PInf = NaN"
| "fadd PInf _ = PInf"
| "fadd NInf _ = NInf"
| "fadd (Fin a) b = b"

definition fsub :: "cfloat \<Rightarrow> cfloat \<Rightarrow> cfloat" where
  "fsub a b = fadd a (fneg b)"

text \<open>An infinity times or divided by a finite value: the sign of the finite value decides.\<close>

fun inf_signed :: "bool \<Rightarrow> cfloat" where
  "inf_signed True = PInf"
| "inf_signed False = NInf"

fun fmul :: "cfloat \<Rightarrow> cfloat \<Rightarrow> cfloat" where
  "fmul NaN _ = NaN"
| "fmul _ NaN = NaN"
| "fmul (Fin a) (Fin b) = Fin (a * b)"
| "fmul (Fin a) PInf = (if a = 0 then NaN else inf_signed (0 < a))"
| "fmul (Fin a) NInf = (if a = 0 then NaN else inf_signed (a < 0))"
| "fmul PInf (Fin b) = (if b = 0 then NaN else inf_signed (0 < b))"
| "fmul NInf (Fin b) = (if b = 0 then NaN else inf_signed (b < 0))"
| "fmul PInf PInf = PInf"
| "fmul NInf NInf = PInf"
| "fmul PInf NInf = NInf"
| "fmul NInf PInf = NInf"

fun fdiv :: "cfloat \<Rightarrow> cfloat \<Rightarrow> cfloat" where
  "fdiv NaN _ = NaN"
| "fdiv _ NaN = NaN"
| "fdiv (Fin a) (Fin b) =
     (if b = 0 then (if a = 0 then NaN else inf_signed (0 < a)) else Fin (a / b))"
| "fdiv (Fin a) PInf = Fin 0"
| "fdiv (Fin a) NInf = Fin 0"
| "fdiv PInf (Fin b) = inf_signed (0 \<le> b)"
| "fdiv NInf (Fin b) = inf_signed (b < 0)"
| "fdiv PInf _ = NaN"
| "fdiv NInf _ = NaN"

text \<open>The comparison \<^verbatim>\<open>a >= b\<close>: false as soon as one side is NaN.\<close>

fun fge :: "cfloat \<Rightarrow> cfloat \<Rightarrow> bool" where
  "fge NaN _ = False"
| "fge _ NaN = False"
| "fge (Fin a) (Fin b) = (b \<le> a)"
| "fge PInf _ = True"
| "fge _ NInf = True"
| "fge NInf _ = False"
| "fge (Fin a) PInf = False"

section \<open>Time points\<close>

text \<open>
  A \<^verbatim>\<open>TIME_POINT_T\<close> is a reading of the steady clock, here its count of nanoseconds.
  \<^verbatim>\<open>NanosecondsBetween\<close> casts the difference to nanoseconds and divides the count by
  \<^verbatim>\<open>1e3f\<close>, so what it returns is a number of microseconds.
\<close>

type_synonym TIME_POINT_T = int

definition NanosecondsBetween :: "TIME_POINT_T \<Rightarrow> TIME_POINT_T \<Rightarrow> cfloat" where
  "NanosecondsBetween end_t start_t = fdiv (Fin (real_of_int (end_t - start_t))) (Fin 1000)"

section \<open>The estimator\<close>

text \<open>
  The enumeration \<^verbatim>\<open>EstimationMethod\<close> is carried by its underlying integer, so that a
  caller can pass a value that is no enumerator, which the \<^verbatim>\<open>switch\<close> of \<^verbatim>\<open>FPS\<close> handles
  in its \<^verbatim>\<open>default\<close> branch.
\<close>

type_synonym EstimationMethod = int

definition CountSamples :: EstimationMethod where
  "CountSamples = 0"

definition AverageIntervals :: EstimationMethod where
  "AverageIntervals = 1"

record FPSEstimator =
  m_sample_times :: "TIME_POINT_T list"
  m_rolling :: cfloat
  m_decay_factor :: cfloat

text \<open>
  The two \<^verbatim>\<open>static int cleanup\<close> counters of \<^verbatim>\<open>FPS\<close>, one in each branch of the
  \<^verbatim>\<open>switch\<close>. They belong to the program, not to an estimator instance.
\<close>

record statics =
  cleanup_CountSamples :: int
  cleanup_AverageIntervals :: int

datatype error =
    runtime_error          \<comment> \<open>\<^verbatim>\<open>throw std::runtime_error\<close>\<close>
  | undefined_behaviour    \<comment> \<open>\<^verbatim>\<open>erase\<close> with a range that ends before the beginning of the vector\<close>

definition FPSEstimator_ctor :: FPSEstimator where
  "FPSEstimator_ctor = \<lparr>m_sample_times = [], m_rolling = Fin 0, m_decay_factor = Fin 0\<rparr>"

definition SetDecayFactor :: "cfloat \<Rightarrow> FPSEstimator \<Rightarrow> FPSEstimator" where
  "SetDecayFactor new_decay_factor est = est\<lparr>m_decay_factor := new_decay_factor\<rparr>"

text \<open>\<^verbatim>\<open>AddSample\<close> reads the clock; the reading is the argument \<open>now\<close>.\<close>

definition AddSample :: "TIME_POINT_T \<Rightarrow> FPSEstimator \<Rightarrow> FPSEstimator" where
  "AddSample now est = est\<lparr>m_sample_times := m_sample_times est @ [now]\<rparr>"

definition Reset :: "FPSEstimator \<Rightarrow> FPSEstimator" where
  "Reset est = est\<lparr>m_sample_times := []\<rparr>"

text \<open>
  The test of the backward scan,
  \<^verbatim>\<open>NanosecondsBetween(now, m_sample_times[i]) >= (window_seconds*1e6f)\<close>:
  the sample is at least a window older than \<open>now\<close>.
\<close>

definition outside_window :: "TIME_POINT_T \<Rightarrow> cfloat \<Rightarrow> TIME_POINT_T \<Rightarrow> bool" where
  "outside_window now window_seconds t =
     fge (NanosecondsBetween now t) (fmul window_seconds (Fin 1000000))"

text \<open>
  The loop \<^verbatim>\<open>for (; i >= 0; --i) { if (...) break; ++samples; }\<close>, which both branches
  run from \<^verbatim>\<open>i = size()-1\<close> and \<^verbatim>\<open>samples = 0\<close>. It returns the final \<open>i\<close> and
  \<open>samples\<close>.
\<close>

function scan_window ::
  "TIME_POINT_T \<Rightarrow> cfloat \<Rightarrow> TIME_POINT_T list \<Rightarrow> int \<Rightarrow> nat \<Rightarrow> int \<times> nat" where
  "scan_window now window_seconds ts i samples =
     (if 0 \<le> i then
        (if outside_window now window_seconds (ts ! nat i) then (i, samples)
         else scan_window now window_seconds ts (i - 1) (samples + 1))
      else (i, samples))"
  by pat_completeness auto
termination
  by (relation "measure (\<lambda>(now, window_seconds, ts, i, samples). nat (i + 1))") auto

declare scan_window.simps [simp del]

text \<open>
  \<^verbatim>\<open>m_sample_times.erase(m_sample_times.begin(), m_sample_times.begin()+k)\<close>: the first
  \<open>k\<close> elements go. A \<open>k\<close> below zero (or beyond the size) is no valid range.
\<close>

definition erase_prefix :: "TIME_POINT_T list \<Rightarrow> int \<Rightarrow> TIME_POINT_T list option" where
  "erase_prefix ts k = (if 0 \<le> k \<and> k \<le> int (length ts) then Some (drop (nat k) ts) else None)"

text \<open>The branch \<^verbatim>\<open>case CountSamples\<close> of \<^verbatim>\<open>FPS\<close>.\<close>

definition FPS_CountSamples ::
  "FPSEstimator \<Rightarrow> statics \<Rightarrow> TIME_POINT_T \<Rightarrow> cfloat \<Rightarrow> bool
     \<Rightarrow> error + (cfloat \<times> FPSEstimator \<times> statics)" where
  "FPS_CountSamples est st now window_seconds soft_estimate =
     (let ts = m_sample_times est;
          (i, n) = scan_window now window_seconds ts (int (length ts) - 1) 0;
          samples = Fin (real n)
      in if i \<le> 0 then Inr (Fin (- 1), est, st)
         else
           let cleanup = cleanup_CountSamples st + 1;
               pruned = (if 1000 \<le> cleanup then erase_prefix ts (i - 1) else Some ts);
               st' = st\<lparr>cleanup_CountSamples := (if 1000 \<le> cleanup then 0 else cleanup)\<rparr>;
               rolling = fadd (fmul (m_decay_factor est) (m_rolling est))
                              (fdiv (fmul (fsub (Fin 1) (m_decay_factor est)) samples)
                                    window_seconds)
           in case pruned of
                None \<Rightarrow> Inl undefined_behaviour
              | Some ts' \<Rightarrow>
                  Inr (if soft_estimate then rolling else fdiv samples window_seconds,
                       est\<lparr>m_sample_times := ts', m_rolling := rolling\<rparr>, st'))"

text \<open>The branch \<^verbatim>\<open>case AverageIntervals\<close> of \<^verbatim>\<open>FPS\<close>.\<close>

definition FPS_AverageIntervals ::
  "FPSEstimator \<Rightarrow> statics \<Rightarrow> TIME_POINT_T \<Rightarrow> cfloat \<Rightarrow> bool
     \<Rightarrow> error + (cfloat \<times> FPSEstimator \<times> statics)" where
  "FPS_AverageIntervals est st now window_seconds soft_estimate =
     (let ts = m_sample_times est;
          youngest_sample = ts ! nat (int (length ts) - 1);
          (i, samples) = scan_window now window_seconds ts (int (length ts) - 1) 0
      in if i < 0 then Inr (Fin (- 1), est, st)
         else
           let average_interval =
                 fdiv (NanosecondsBetween youngest_sample (ts ! nat i)) (Fin (real samples));
               fps_estimate = fdiv (Fin 1000000) average_interval;
               cleanup = cleanup_AverageIntervals st + 1;
               pruned = (if 1000 \<le> cleanup then erase_prefix ts (i - 1) else Some ts);
               st' = st\<lparr>cleanup_AverageIntervals := (if 1000 \<le> cleanup then 0 else cleanup)\<rparr>;
               rolling = fadd (fmul (m_decay_factor est) (m_rolling est))
                              (fmul (fsub (Fin 1) (m_decay_factor est)) fps_estimate)
           in case pruned of
                None \<Rightarrow> Inl undefined_behaviour
              | Some ts' \<Rightarrow>
                  Inr (if soft_estimate then rolling else fps_estimate,
                       est\<lparr>m_sample_times := ts', m_rolling := rolling\<rparr>, st'))"

text \<open>
  \<^verbatim>\<open>FPS\<close>: the clock reading \<open>now\<close> is an argument; the result is the returned value
  with the estimator and the counters as the call leaves them, or the error. Calls run
  one after the other: the mutex around the accesses to the history is not modelled.
\<close>

definition FPS ::
  "FPSEstimator \<Rightarrow> statics \<Rightarrow> TIME_POINT_T \<Rightarrow> cfloat \<Rightarrow> bool \<Rightarrow> EstimationMethod
     \<Rightarrow> error + (cfloat \<times> FPSEstimator \<times> statics)" where
  "FPS est st now window_seconds soft_estimate method =
     (if length (m_sample_times est) \<le> 0 then Inr (Fin (- 1), est, st)
      else if method = CountSamples then FPS_CountSamples est st now window_seconds soft_estimate
      else if method = AverageIntervals then
        FPS_AverageIntervals est st now window_seconds soft_estimate
      else Inl runtime_error)"

text \<open>
  The conditions under which \<^verbatim>\<open>FPS\<close> leaves through one of its three
  \<^verbatim>\<open>return -1.f\<close>: the history is empty, or the scan of the \<^verbatim>\<open>CountSamples\<close> branch
  ends with \<^verbatim>\<open>i <= 0\<close>, or the scan of the \<^verbatim>\<open>AverageIntervals\<close> branch ends with
  \<^verbatim>\<open>i < 0\<close>.
\<close>

definition insufficient_data ::
  "FPSEstimator \<Rightarrow> TIME_POINT_T \<Rightarrow> cfloat \<Rightarrow> EstimationMethod \<Rightarrow> bool" where
  "insufficient_data est now window_seconds method =
     (let ts = m_sample_times est;
          i = fst (scan_window now window_seconds ts (int (length ts) - 1) 0)
      in length ts \<le> 0 \<or> (method = CountSamples \<and> i \<le> 0) \<or> (method = AverageIntervals \<and> i < 0))"

section \<open>Sequences of calls\<close>

text \<open>
  The calls a caller can make on an estimator. \<^verbatim>\<open>AddSample\<close> and \<^verbatim>\<open>FPS\<close> carry the
  clock reading they take.
\<close>

datatype call =
    Call_SetDecayFactor cfloat
  | Call_AddSample TIME_POINT_T
  | Call_Reset
  | Call_FPS TIME_POINT_T cfloat bool EstimationMethod

text \<open>
  Running a sequence of calls in which no query succeeds: every \<^verbatim>\<open>FPS\<close> call of the
  sequence leaves through a \<^verbatim>\<open>return -1.f\<close>. The result is the estimator and the counters
  after the last call, or \<open>None\<close> when some query of the sequence succeeded, threw or had
  undefined behaviour.
\<close>

fun run_unsuccessful ::
  "call list \<Rightarrow> FPSEstimator \<times> statics \<Rightarrow> (FPSEstimator \<times> statics) option" where
  "run_unsuccessful [] s = Some s"
| "run_unsuccessful (Call_SetDecayFactor d # cs) (est, st) =
     run_unsuccessful cs (SetDecayFactor d est, st)"
| "run_unsuccessful (Call_AddSample t # cs) (est, st) =
     run_unsuccessful cs (AddSample t est, st)"
| "run_unsuccessful (Call_Reset # cs) (est, st) =
     run_unsuccessful cs (Reset est, st)"
| "run_unsuccessful (Call_FPS now window_seconds soft_estimate method # cs) (est, st) =
     (case FPS est st now window_seconds soft_estimate method of
        Inl e \<Rightarrow> None
      | Inr (v, est', st') \<Rightarrow>
          if insufficient_data est now window_seconds method
          then run_unsuccessful cs (est', st') else None)"

section \<open>The specification's wording, for comparison\<close>


text \<open>
  The pruning as the specification words it: every entry before the first sample inside
  the window goes, except the one immediately before it.
\<close>

definition spec_prune :: "TIME_POINT_T \<Rightarrow> cfloat \<Rightarrow> TIME_POINT_T list \<Rightarrow> TIME_POINT_T list" where
  "spec_prune now window_seconds ts =
     drop (length (takeWhile (outside_window now window_seconds) ts) - 1) ts"

section \<open>The backward scan\<close>


lemma scan_window_props:
  assumes "scan_window now w ts i s = (j, s')" and "- 1 \<le> i"
  shows "- 1 \<le> j \<and> j \<le> i \<and> s' = s + nat (i - j)
         \<and> (0 \<le> j \<longrightarrow> outside_window now w (ts ! nat j))
         \<and> (\<forall>k. j < k \<and> k \<le> i \<longrightarrow> \<not> outside_window now w (ts ! nat k))"
  using assms
proof (induction now w ts i s rule: scan_window.induct)
  case (1 now w ts i s)
  show ?case
  proof (cases "0 \<le> i \<and> \<not> outside_window now w (ts ! nat i)")
    case True
    then have rec: "scan_window now w ts (i - 1) (s + 1) = (j, s')"
      using "1.prems"(1) by (subst (asm) scan_window.simps) simp
    have ih: "- 1 \<le> j \<and> j \<le> i - 1 \<and> s' = s + 1 + nat (i - 1 - j)
         \<and> (0 \<le> j \<longrightarrow> outside_window now w (ts ! nat j))
         \<and> (\<forall>k. j < k \<and> k \<le> i - 1 \<longrightarrow> \<not> outside_window now w (ts ! nat k))"
      using "1.IH" [OF _ _ rec] True by simp
    have "\<not> outside_window now w (ts ! nat k)" if "j < k" "k \<le> i" for k
    proof (cases "k = i")
      case True
      with \<open>0 \<le> i \<and> \<not> outside_window now w (ts ! nat i)\<close> show ?thesis by simp
    next
      case False
      with that ih show ?thesis by simp
    qed
    with ih show ?thesis by auto
  next
    case False
    then have "(j, s') = (i, s)"
      using "1.prems"(1) by (subst (asm) scan_window.simps) (auto split: if_splits)
    with False "1.prems"(2) show ?thesis by auto
  qed
qed

section \<open>Facts about the arithmetic and the shape of a query\<close>

lemma fdiv_inf_signed: "0 < r \<Longrightarrow> fdiv (inf_signed b) (Fin r) = inf_signed b"
  by (cases b) auto

lemma fdiv_fmul_Fin:
  "0 < r \<Longrightarrow> fdiv (fmul a (Fin x)) (Fin r) = fmul a (fdiv (Fin x) (Fin r))"
  by (cases a) (auto simp: zero_less_divide_iff divide_less_0_iff fdiv_inf_signed)

lemma fadd_fmul_zero: "fadd (fmul (Fin d) (Fin 0)) x = x"
  by (cases x) auto

text \<open>
  What a query that does not leave through a \<^verbatim>\<open>return -1.f\<close> does to the rolling
  estimate and what it returns, for a finite positive window.
\<close>

lemma FPS_success_shape:
  assumes ret: "FPS est st now (Fin r) soft_estimate method = Inr (v, est', st')"
    and ok: "\<not> insufficient_data est now (Fin r) method"
    and pos: "0 < r"
  shows "\<exists>instantaneous.
           FPS est st now (Fin r) False method = Inr (instantaneous, est', st')
         \<and> m_rolling est' =
             fadd (fmul (m_decay_factor est) (m_rolling est))
                  (fmul (fsub (Fin 1) (m_decay_factor est)) instantaneous)
         \<and> v = (if soft_estimate then m_rolling est' else instantaneous)"
proof -
  from ok have ne: "\<not> length (m_sample_times est) \<le> 0"
    by (simp add: insufficient_data_def Let_def)
  obtain i n where sc:
    "scan_window now (Fin r) (m_sample_times est) (int (length (m_sample_times est)) - 1) 0 = (i, n)"
    by fastforce
  from ret ne consider (cs) "method = CountSamples" | (ai) "method = AverageIntervals"
    by (auto simp: FPS_def split: if_splits)
  then show ?thesis
  proof cases
    case cs
    with ok sc have i: "\<not> i \<le> 0"
      by (simp add: insufficient_data_def Let_def)
    from ret cs ne sc i show ?thesis
      by (auto simp: FPS_def FPS_CountSamples_def Let_def fdiv_fmul_Fin [OF pos]
          split: if_splits option.splits)
  next
    case ai
    with ok sc have i: "\<not> i < 0"
      by (simp add: insufficient_data_def Let_def AverageIntervals_def CountSamples_def)
    from ret ai ne sc i show ?thesis
      by (auto simp: FPS_def FPS_AverageIntervals_def Let_def AverageIntervals_def CountSamples_def
          split: if_splits option.splits)
  qed
qed

text \<open>A query under \<open>insufficient_data\<close> returns \<open>-1\<close> and changes nothing.\<close>

lemma FPS_insufficient:
  assumes "insufficient_data est now w method"
  shows "FPS est st now w soft method = Inr (Fin (- 1), est, st)"
proof -
  obtain i n where sc:
    "scan_window now w (m_sample_times est) (int (length (m_sample_times est)) - 1) 0 = (i, n)"
    by fastforce
  with assms show ?thesis
    by (auto simp: insufficient_data_def FPS_def FPS_CountSamples_def FPS_AverageIntervals_def
        Let_def CountSamples_def AverageIntervals_def)
qed

text \<open>
  With a finite positive window, a sorted history, a decay factor in \<open>[0, 1]\<close> and a
  rolling estimate that is not negative, no successful query returns a negative value.
\<close>

lemma rolling_nonneg:
  assumes "0 \<le> d" "d \<le> 1" "0 \<le> q" "e \<noteq> NInf" "\<And>y. e = Fin y \<Longrightarrow> 0 \<le> y"
  shows "fadd (fmul (Fin d) (Fin q)) (fmul (fsub (Fin 1) (Fin d)) e) \<noteq> NInf"
    and "fadd (fmul (Fin d) (Fin q)) (fmul (fsub (Fin 1) (Fin d)) e) = Fin x \<Longrightarrow> 0 \<le> x"
  using assms by (cases e; auto simp: fsub_def split: if_splits)+

lemma negative_return_is_failure:
  assumes ret: "FPS est st now (Fin r) soft method = Inr (Fin x, est', st')"
    and neg: "x < 0" and pos: "0 < r"
    and srt: "sorted (m_sample_times est)"
    and dec: "m_decay_factor est = Fin d" "0 \<le> d" "d \<le> 1"
    and roll: "m_rolling est = Fin q" "0 \<le> q"
  shows "insufficient_data est now (Fin r) method"
proof (rule ccontr)
  assume ok: "\<not> insufficient_data est now (Fin r) method"
  let ?ts = "m_sample_times est"
  from ok have ne: "\<not> length ?ts \<le> 0"
    by (simp add: insufficient_data_def Let_def)
  obtain i n where sc: "scan_window now (Fin r) ?ts (int (length ?ts) - 1) 0 = (i, n)"
    by fastforce
  from scan_window_props [OF sc] ne have i: "i \<le> int (length ?ts) - 1" by simp
  from ret ne consider (cs) "method = CountSamples" | (ai) "method = AverageIntervals"
    by (auto simp: FPS_def split: if_splits)
  then show False
  proof cases
    case cs
    with ok sc have "\<not> i \<le> 0"
      by (simp add: insufficient_data_def Let_def)
    with ret cs ne sc pos have
      "Fin x = Fin (real n / r) \<or> Fin x = Fin (d * q + (1 - d) * real n / r)"
      by (auto simp: FPS_def FPS_CountSamples_def Let_def dec roll fsub_def
          split: if_splits option.splits)
    moreover have "0 \<le> real n / r" and "0 \<le> d * q + (1 - d) * real n / r"
      using pos dec roll by simp_all
    ultimately show False using neg by auto
  next
    case ai
    with ok sc have i0: "\<not> i < 0"
      by (simp add: insufficient_data_def Let_def AverageIntervals_def CountSamples_def)
    define e where "e = fdiv (Fin 1000000)
        (fdiv (NanosecondsBetween (?ts ! nat (int (length ?ts) - 1)) (?ts ! nat i))
              (Fin (real n)))"
    have "?ts ! nat i \<le> ?ts ! nat (int (length ?ts) - 1)"
      using srt i i0 ne by (intro sorted_nth_mono) auto
    then have e1: "e \<noteq> NInf" and e2: "\<And>y. e = Fin y \<Longrightarrow> 0 \<le> y"
      by (auto simp: e_def NanosecondsBetween_def split: if_splits)
    from ret ai ne sc i0 have
      "Fin x = e \<or> Fin x = fadd (fmul (Fin d) (Fin q)) (fmul (fsub (Fin 1) (Fin d)) e)"
      by (auto simp: FPS_def FPS_AverageIntervals_def Let_def dec roll e_def
          AverageIntervals_def CountSamples_def split: if_splits option.splits)
    then show False
      using e2 [of x] neg rolling_nonneg(2) [OF dec(2,3) roll(2) e1 e2, of x] by auto
  qed
qed

section \<open>The rolling estimate\<close>

text \<open>
  Claim C4. A query that fails, that is one that leaves through a \<^verbatim>\<open>return -1.f\<close>
  (\<open>insufficient_data\<close>), returns \<open>-1\<close> and leaves the estimator and the counters as they
  were, the rolling estimate among them, for every window, flag and method; so a query
  after which the rolling estimate differs is one that did not fail. Seen from the
  caller: with a finite positive window, a sorted history, a decay factor in \<open>[0, 1]\<close> and
  a rolling estimate that is not negative, a query that returns a negative value returns
  \<open>-1\<close> and has changed nothing.
\<close>

theorem failed_query_keeps_rolling:
  "(insufficient_data est now window_seconds method \<longrightarrow>
      FPS est st now window_seconds soft_estimate method = Inr (Fin (- 1), est, st))
   \<and> (FPS est st now window_seconds soft_estimate method = Inr (v, est', st')
        \<and> m_rolling est' \<noteq> m_rolling est \<longrightarrow>
      \<not> insufficient_data est now window_seconds method)
   \<and> (window_seconds = Fin r \<and> 0 < r \<and> sorted (m_sample_times est)
        \<and> m_decay_factor est = Fin d \<and> 0 \<le> d \<and> d \<le> 1
        \<and> m_rolling est = Fin q \<and> 0 \<le> q
        \<and> FPS est st now window_seconds soft_estimate method = Inr (Fin x, est', st')
        \<and> x < 0 \<longrightarrow>
      x = - 1 \<and> est' = est \<and> st' = st)"
proof (intro conjI impI)
  assume "insufficient_data est now window_seconds method"
  then show "FPS est st now window_seconds soft_estimate method = Inr (Fin (- 1), est, st)"
    by (rule FPS_insufficient)
next
  assume h: "FPS est st now window_seconds soft_estimate method = Inr (v, est', st')
        \<and> m_rolling est' \<noteq> m_rolling est"
  show "\<not> insufficient_data est now window_seconds method"
  proof
    assume "insufficient_data est now window_seconds method"
    then have "FPS est st now window_seconds soft_estimate method = Inr (Fin (- 1), est, st)"
      by (rule FPS_insufficient)
    with h show False by auto
  qed
next
  assume h: "window_seconds = Fin r \<and> 0 < r \<and> sorted (m_sample_times est)
        \<and> m_decay_factor est = Fin d \<and> 0 \<le> d \<and> d \<le> 1
        \<and> m_rolling est = Fin q \<and> 0 \<le> q
        \<and> FPS est st now window_seconds soft_estimate method = Inr (Fin x, est', st')
        \<and> x < 0"
  then have ret: "FPS est st now (Fin r) soft_estimate method = Inr (Fin x, est', st')"
    and "x < 0" and "0 < r" and "sorted (m_sample_times est)"
    and "m_decay_factor est = Fin d" and "0 \<le> d" and "d \<le> 1"
    and "m_rolling est = Fin q" and "0 \<le> q"
    by auto
  then have "insufficient_data est now (Fin r) method"
    by (rule negative_return_is_failure)
  then have "FPS est st now (Fin r) soft_estimate method = Inr (Fin (- 1), est, st)"
    by (rule FPS_insufficient)
  with ret show "x = - 1" and "est' = est" and "st' = st" by auto
qed

theorem failed_query_keeps_rolling_witness:
  "insufficient_data
     \<lparr>m_sample_times = [1900000000], m_rolling = Fin 7, m_decay_factor = Fin (1 / 2)\<rparr>
     2000000000 (Fin 1) AverageIntervals
   \<and> FPS \<lparr>m_sample_times = [1900000000], m_rolling = Fin 7, m_decay_factor = Fin (1 / 2)\<rparr>
         \<lparr>cleanup_CountSamples = 0, cleanup_AverageIntervals = 0\<rparr>
         2000000000 (Fin 1) True AverageIntervals
       = Inr (Fin (- 1),
              \<lparr>m_sample_times = [1900000000], m_rolling = Fin 7, m_decay_factor = Fin (1 / 2)\<rparr>,
              \<lparr>cleanup_CountSamples = 0, cleanup_AverageIntervals = 0\<rparr>)
   \<and> sorted [1900000000 :: int] \<and> (0 :: real) \<le> 1 / 2 \<and> (1 / 2 :: real) \<le> 1
   \<and> (0 :: real) \<le> 7 \<and> (0 :: real) < 1 \<and> (- 1 :: real) < 0
   \<and> FPS \<lparr>m_sample_times = [0, 500000000, 1500000000, 1800000000], m_rolling = Fin 4,
           m_decay_factor = Fin (1 / 2)\<rparr>
         \<lparr>cleanup_CountSamples = 0, cleanup_AverageIntervals = 0\<rparr>
         2000000000 (Fin 1) True CountSamples
       = Inr (Fin 3,
              \<lparr>m_sample_times = [0, 500000000, 1500000000, 1800000000], m_rolling = Fin 3,
                 m_decay_factor = Fin (1 / 2)\<rparr>,
              \<lparr>cleanup_CountSamples = 1, cleanup_AverageIntervals = 0\<rparr>)
   \<and> \<not> insufficient_data
         \<lparr>m_sample_times = [0, 500000000, 1500000000, 1800000000], m_rolling = Fin 4,
            m_decay_factor = Fin (1 / 2)\<rparr>
         2000000000 (Fin 1) CountSamples"
proof -
  let ?e1 = "\<lparr>m_sample_times = [1900000000], m_rolling = Fin 7,
               m_decay_factor = Fin (1 / 2)\<rparr>"
  let ?e2 = "\<lparr>m_sample_times = [0, 500000000, 1500000000, 1800000000], m_rolling = Fin 4,
               m_decay_factor = Fin (1 / 2)\<rparr>"
  let ?e2' = "\<lparr>m_sample_times = [0, 500000000, 1500000000, 1800000000], m_rolling = Fin 3,
               m_decay_factor = Fin (1 / 2)\<rparr>"
  let ?st = "\<lparr>cleanup_CountSamples = 0, cleanup_AverageIntervals = 0\<rparr>"
  let ?st' = "\<lparr>cleanup_CountSamples = 1, cleanup_AverageIntervals = 0\<rparr>"
  have sc1: "scan_window 2000000000 (Fin 1) [1900000000] 0 0 = (- 1, 1)"
    by (simp add: scan_window.simps outside_window_def NanosecondsBetween_def)
  have ins: "insufficient_data ?e1 2000000000 (Fin 1) AverageIntervals"
    by (simp add: insufficient_data_def Let_def sc1)
  have fail: "FPS ?e1 ?st 2000000000 (Fin 1) True AverageIntervals = Inr (Fin (- 1), ?e1, ?st)"
    using ins failed_query_keeps_rolling
      [of ?e1 2000000000 "Fin 1" AverageIntervals ?st True]
    by simp
  have sc2: "scan_window 2000000000 (Fin 1) [0, 500000000, 1500000000, 1800000000] 3 0
      = (1, 2)"
    by (simp add: scan_window.simps outside_window_def NanosecondsBetween_def)
  have ret: "FPS ?e2 ?st 2000000000 (Fin 1) True CountSamples = Inr (Fin 3, ?e2', ?st')"
    by (simp add: FPS_def FPS_CountSamples_def Let_def sc2 fsub_def)
  have ok: "\<not> insufficient_data ?e2 2000000000 (Fin 1) CountSamples"
    using ret failed_query_keeps_rolling
      [of ?e2 2000000000 "Fin 1" CountSamples ?st True "Fin 3" ?e2' ?st']
    by simp
  from ins fail ret ok show ?thesis by simp
qed



section \<open>Reset\<close>

text \<open>
  Claim C9. \<^verbatim>\<open>Reset\<close> empties the history and keeps the rolling estimate and the decay
  factor; a query right after it returns \<open>-1\<close> and changes nothing, for every clock
  reading, window, flag and method value.
\<close>

theorem Reset_clears_history_only:
  "m_sample_times (Reset est) = []
   \<and> m_rolling (Reset est) = m_rolling est
   \<and> m_decay_factor (Reset est) = m_decay_factor est
   \<and> FPS (Reset est) st now window_seconds soft_estimate method = Inr (Fin (- 1), Reset est, st)"
  by (simp add: Reset_def FPS_def)

section \<open>A method value that is no enumerator\<close>

text \<open>
  Claim C8 as stated fails: the test for an empty history comes before the
  \<^verbatim>\<open>switch\<close>, so on an empty history the method value \<open>2\<close> returns \<open>-1\<close>.
\<close>

theorem unknown_method_empty_history_counterexample:
  "(2::int) \<noteq> CountSamples \<and> 2 \<noteq> AverageIntervals
   \<and> FPS \<lparr>m_sample_times = [], m_rolling = Fin 0, m_decay_factor = Fin 0\<rparr>
         \<lparr>cleanup_CountSamples = 0, cleanup_AverageIntervals = 0\<rparr> 0 (Fin 1) False 2
       = Inr (Fin (- 1), \<lparr>m_sample_times = [], m_rolling = Fin 0, m_decay_factor = Fin 0\<rparr>,
              \<lparr>cleanup_CountSamples = 0, cleanup_AverageIntervals = 0\<rparr>)"
  by (simp add: FPS_def CountSamples_def AverageIntervals_def)

text \<open>
  Claim C8, amended. With a method value that is neither \<^verbatim>\<open>CountSamples\<close> nor
  \<^verbatim>\<open>AverageIntervals\<close>, a query on a non-empty history throws
  \<^verbatim>\<open>std::runtime_error\<close>: it returns no value and the estimator keeps its state. On an
  empty history it returns \<open>-1\<close>.
\<close>

theorem unknown_method_throws:
  assumes "method \<noteq> CountSamples" and "method \<noteq> AverageIntervals"
  shows "FPS est st now window_seconds soft_estimate method =
           (if m_sample_times est = [] then Inr (Fin (- 1), est, st) else Inl runtime_error)"
  using assms by (simp add: FPS_def)

theorem unknown_method_throws_witness:
  "(2::int) \<noteq> CountSamples \<and> 2 \<noteq> AverageIntervals
   \<and> FPS \<lparr>m_sample_times = [5], m_rolling = Fin 0, m_decay_factor = Fin 0\<rparr>
         \<lparr>cleanup_CountSamples = 0, cleanup_AverageIntervals = 0\<rparr> 10 (Fin 1) False 2
       = Inl runtime_error"
proof -
  have a: "(2::int) \<noteq> CountSamples" and b: "(2::int) \<noteq> AverageIntervals"
    by (simp_all add: CountSamples_def AverageIntervals_def)
  show ?thesis
    using a b unknown_method_throws [OF a b,
      of "\<lparr>m_sample_times = [5], m_rolling = Fin 0, m_decay_factor = Fin 0\<rparr>"
         "\<lparr>cleanup_CountSamples = 0, cleanup_AverageIntervals = 0\<rparr>" 10 "Fin 1" False]
    by simp
qed

section \<open>The CountSamples scenario of the specification\<close>

text \<open>
  Claim C2, at the scenario it names: samples at 0, 100, 200, 300 and 400 ms, a window
  of 0.35 s, the clock at 400 ms. The scan counts four samples and stops at index 0, on
  the sample at 0 ms, which is outside the window. The guard of the branch is
  \<^verbatim>\<open>i <= 0\<close>, so the query returns \<open>-1\<close> and not \<open>4 / 0.35\<close>.
\<close>

theorem CountSamples_scenario_returns_sentinel:
  "scan_window 400000000 (Fin (35 / 100)) [0, 100000000, 200000000, 300000000, 400000000] 4 0
     = (0, 4)
   \<and> outside_window 400000000 (Fin (35 / 100)) 0
   \<and> FPS \<lparr>m_sample_times = [0, 100000000, 200000000, 300000000, 400000000],
           m_rolling = rolling, m_decay_factor = decay\<rparr>
         st 400000000 (Fin (35 / 100)) soft_estimate CountSamples
       = Inr (Fin (- 1),
              \<lparr>m_sample_times = [0, 100000000, 200000000, 300000000, 400000000],
                 m_rolling = rolling, m_decay_factor = decay\<rparr>, st)"
proof -
  have sc: "scan_window 400000000 (Fin (35 / 100))
      [0, 100000000, 200000000, 300000000, 400000000] 4 0 = (0, 4)"
    by (simp add: scan_window.simps outside_window_def NanosecondsBetween_def)
  show ?thesis
    using sc
    by (simp add: FPS_def FPS_CountSamples_def Let_def outside_window_def
        NanosecondsBetween_def)
qed

section \<open>A single sample older than the window\<close>

text \<open>
  Claim C6, at a history of one sample that is two seconds old, with a window of one
  second and the method \<^verbatim>\<open>AverageIntervals\<close>: the scan stops at index 0 with no sample
  counted, the interval is \<open>0 / 0\<close>, and the query returns NaN and stores NaN as the
  rolling estimate.
\<close>

theorem AverageIntervals_single_old_sample_returns_NaN:
  "FPS \<lparr>m_sample_times = [0], m_rolling = Fin 0, m_decay_factor = Fin 0\<rparr>
       \<lparr>cleanup_CountSamples = 0, cleanup_AverageIntervals = 0\<rparr>
       2000000000 (Fin 1) False AverageIntervals
     = Inr (NaN, \<lparr>m_sample_times = [0], m_rolling = NaN, m_decay_factor = Fin 0\<rparr>,
            \<lparr>cleanup_CountSamples = 0, cleanup_AverageIntervals = 1\<rparr>)"
proof -
  have sc: "scan_window 2000000000 (Fin 1) [0] 0 0 = (0, 0)"
    by (simp add: scan_window.simps outside_window_def NanosecondsBetween_def)
  show ?thesis
    by (simp add: sc FPS_def FPS_AverageIntervals_def Let_def CountSamples_def
        AverageIntervals_def NanosecondsBetween_def fsub_def)
qed

section \<open>The AverageIntervals estimate\<close>










section \<open>Pruning\<close>

text \<open>
  Claim C7, at two inputs where the prune is due (the counter of the branch is at 999).
  The call is \<^verbatim>\<open>erase(begin(), begin()+i-1)\<close>, where \<open>i\<close> is the index at which the scan
  stopped, the youngest sample outside the window; the comment in the source says that
  the indices \<open>0\<close> to \<open>i-1\<close> are discarded, which is \<^verbatim>\<open>begin()+i\<close>.

  First input: \<^verbatim>\<open>AverageIntervals\<close>, samples at 0 s, 1.5 s and 1.8 s, the clock at 2 s, a
  window of 1 s. The query is a successful one, the scan stops at \<open>i = 0\<close>, and the range
  of the erase ends before the beginning of the history: undefined behaviour, where
  the pruning of the specification removes nothing.

  Second input: \<^verbatim>\<open>CountSamples\<close>, five samples one second apart, the clock half a second
  after the last, a window of 1 s. One sample is inside the window; the pruning of the
  specification keeps it and the one before it, the code keeps one more, the sample
  at 2 s.
\<close>

theorem prune_erase_range_off_by_one:
  "\<not> insufficient_data
       \<lparr>m_sample_times = [0, 1500000000, 1800000000], m_rolling = Fin 0,
          m_decay_factor = Fin 0\<rparr>
       2000000000 (Fin 1) AverageIntervals
   \<and> FPS \<lparr>m_sample_times = [0, 1500000000, 1800000000], m_rolling = Fin 0,
           m_decay_factor = Fin 0\<rparr>
         \<lparr>cleanup_CountSamples = 0, cleanup_AverageIntervals = 999\<rparr>
         2000000000 (Fin 1) False AverageIntervals
       = Inl undefined_behaviour
   \<and> spec_prune 2000000000 (Fin 1) [0, 1500000000, 1800000000]
       = [0, 1500000000, 1800000000]
   \<and> FPS \<lparr>m_sample_times = [0, 1000000000, 2000000000, 3000000000, 4000000000],
           m_rolling = Fin 0, m_decay_factor = Fin 0\<rparr>
         \<lparr>cleanup_CountSamples = 999, cleanup_AverageIntervals = 0\<rparr>
         4500000000 (Fin 1) False CountSamples
       = Inr (Fin 1,
              \<lparr>m_sample_times = [2000000000, 3000000000, 4000000000],
                 m_rolling = Fin 1, m_decay_factor = Fin 0\<rparr>,
              \<lparr>cleanup_CountSamples = 0, cleanup_AverageIntervals = 0\<rparr>)
   \<and> spec_prune 4500000000 (Fin 1) [0, 1000000000, 2000000000, 3000000000, 4000000000]
       = [3000000000, 4000000000]"
proof -
  have sc1: "scan_window 2000000000 (Fin 1) [0, 1500000000, 1800000000] 2 0 = (0, 2)"
    by (simp add: scan_window.simps outside_window_def NanosecondsBetween_def)
  have a: "\<not> insufficient_data
       \<lparr>m_sample_times = [0, 1500000000, 1800000000], m_rolling = Fin 0,
          m_decay_factor = Fin 0\<rparr>
       2000000000 (Fin 1) AverageIntervals"
    by (simp add: insufficient_data_def Let_def sc1 CountSamples_def AverageIntervals_def)
  have b: "FPS \<lparr>m_sample_times = [0, 1500000000, 1800000000], m_rolling = Fin 0,
           m_decay_factor = Fin 0\<rparr>
         \<lparr>cleanup_CountSamples = 0, cleanup_AverageIntervals = 999\<rparr>
         2000000000 (Fin 1) False AverageIntervals
       = Inl undefined_behaviour"
    by (simp add: sc1 FPS_def FPS_AverageIntervals_def Let_def CountSamples_def
        AverageIntervals_def erase_prefix_def)
  have c: "spec_prune 2000000000 (Fin 1) [0, 1500000000, 1800000000]
       = [0, 1500000000, 1800000000]"
    by (simp add: spec_prune_def outside_window_def NanosecondsBetween_def)
  have sc2: "scan_window 4500000000 (Fin 1)
      [0, 1000000000, 2000000000, 3000000000, 4000000000] 4 0 = (3, 1)"
    by (simp add: scan_window.simps outside_window_def NanosecondsBetween_def)
  have d: "FPS \<lparr>m_sample_times = [0, 1000000000, 2000000000, 3000000000, 4000000000],
           m_rolling = Fin 0, m_decay_factor = Fin 0\<rparr>
         \<lparr>cleanup_CountSamples = 999, cleanup_AverageIntervals = 0\<rparr>
         4500000000 (Fin 1) False CountSamples
       = Inr (Fin 1,
              \<lparr>m_sample_times = [2000000000, 3000000000, 4000000000],
                 m_rolling = Fin 1, m_decay_factor = Fin 0\<rparr>,
              \<lparr>cleanup_CountSamples = 0, cleanup_AverageIntervals = 0\<rparr>)"
    by (simp add: sc2 FPS_def FPS_CountSamples_def Let_def erase_prefix_def fsub_def)
  have e: "spec_prune 4500000000 (Fin 1) [0, 1000000000, 2000000000, 3000000000, 4000000000]
     = [3000000000, 4000000000]"
    by (simp add: spec_prune_def outside_window_def NanosecondsBetween_def)
  from a b c d e show ?thesis by (intro conjI)
qed

section \<open>Construction\<close>

text \<open>
  The rolling estimate is written only by a successful query: calls among which no query
  succeeds leave it as it was.
\<close>

lemma run_unsuccessful_rolling:
  "run_unsuccessful cs (est, st) = Some (est', st') \<Longrightarrow> m_rolling est' = m_rolling est"
proof (induction cs arbitrary: est st)
  case Nil
  then show ?case by simp
next
  case (Cons c cs)
  show ?case
  proof (cases c)
    case (Call_SetDecayFactor d)
    with Cons.prems have "run_unsuccessful cs (SetDecayFactor d est, st) = Some (est', st')"
      by simp
    then have "m_rolling est' = m_rolling (SetDecayFactor d est)" by (rule Cons.IH)
    then show ?thesis by (simp add: SetDecayFactor_def)
  next
    case (Call_AddSample t)
    with Cons.prems have "run_unsuccessful cs (AddSample t est, st) = Some (est', st')"
      by simp
    then have "m_rolling est' = m_rolling (AddSample t est)" by (rule Cons.IH)
    then show ?thesis by (simp add: AddSample_def)
  next
    case Call_Reset
    with Cons.prems have "run_unsuccessful cs (Reset est, st) = Some (est', st')"
      by simp
    then have "m_rolling est' = m_rolling (Reset est)" by (rule Cons.IH)
    then show ?thesis by (simp add: Reset_def)
  next
    case (Call_FPS now w soft m)
    show ?thesis
    proof (cases "insufficient_data est now w m")
      case True
      then have "FPS est st now w soft m = Inr (Fin (- 1), est, st)"
        by (rule FPS_insufficient)
      with Cons.prems Call_FPS True have "run_unsuccessful cs (est, st) = Some (est', st')"
        by simp
      then show ?thesis by (rule Cons.IH)
    next
      case False
      with Cons.prems Call_FPS show ?thesis
        by (simp split: sum.splits prod.splits)
    qed
  qed
qed

text \<open>The instantaneous estimate of a successful query, from the result of its scan.\<close>

lemma FPS_instantaneous_value:
  assumes ret: "FPS est st now w False method = Inr (inst, est', st')"
    and ok: "\<not> insufficient_data est now w method"
    and sc: "scan_window now w (m_sample_times est) (int (length (m_sample_times est)) - 1) 0
               = (i, n)"
  shows "inst =
     (if method = CountSamples then fdiv (Fin (real n)) w
      else fdiv (Fin 1000000)
             (fdiv (NanosecondsBetween (last (m_sample_times est)) (m_sample_times est ! nat i))
                   (Fin (real n))))"
proof -
  from ok have ne: "m_sample_times est \<noteq> []"
    by (auto simp: insufficient_data_def Let_def)
  then have lst: "m_sample_times est ! nat (int (length (m_sample_times est)) - 1)
      = last (m_sample_times est)"
    by (simp add: last_conv_nth nat_diff_distrib')
  from ret ne consider (cs) "method = CountSamples" | (ai) "method = AverageIntervals"
    by (auto simp: FPS_def split: if_splits)
  then show ?thesis
  proof cases
    case cs
    with ok sc have "\<not> i \<le> 0"
      by (simp add: insufficient_data_def Let_def)
    with cs ret ne sc show ?thesis
      by (auto simp: FPS_def FPS_CountSamples_def Let_def split: if_splits option.splits)
  next
    case ai
    with ok sc have "\<not> i < 0"
      by (simp add: insufficient_data_def Let_def AverageIntervals_def CountSamples_def)
    with ai ret ne sc lst show ?thesis
      by (auto simp: FPS_def FPS_AverageIntervals_def Let_def AverageIntervals_def
          CountSamples_def split: if_splits option.splits)
  qed
qed

text \<open>
  Claim C10 as stated fails: a successful query that is not soft writes the rolling
  estimate too. Construct an estimator, set the decay factor to \<open>1/2\<close>, add samples at
  0 s, 0.5 s, 1.5 s and 1.8 s, and query at 2 s with a window of 1 s, first without and
  then with \<open>soft_estimate\<close>. The instantaneous estimate is \<open>2\<close> both times. The first query
  leaves a rolling estimate of \<open>1\<close>, so the first successful soft query returns \<open>3/2\<close>,
  not \<open>(1 - 1/2) * 2 = 1\<close>.
\<close>

theorem first_soft_query_after_plain_query_counterexample:
  "FPS (AddSample 1800000000 (AddSample 1500000000 (AddSample 500000000 (AddSample 0
          (SetDecayFactor (Fin (1 / 2)) FPSEstimator_ctor)))))
       \<lparr>cleanup_CountSamples = 0, cleanup_AverageIntervals = 0\<rparr>
       2000000000 (Fin 1) False CountSamples
     = Inr (Fin 2,
            \<lparr>m_sample_times = [0, 500000000, 1500000000, 1800000000], m_rolling = Fin 1,
               m_decay_factor = Fin (1 / 2)\<rparr>,
            \<lparr>cleanup_CountSamples = 1, cleanup_AverageIntervals = 0\<rparr>)
   \<and> FPS \<lparr>m_sample_times = [0, 500000000, 1500000000, 1800000000], m_rolling = Fin 1,
           m_decay_factor = Fin (1 / 2)\<rparr>
         \<lparr>cleanup_CountSamples = 1, cleanup_AverageIntervals = 0\<rparr>
         2000000000 (Fin 1) True CountSamples
     = Inr (Fin (3 / 2),
            \<lparr>m_sample_times = [0, 500000000, 1500000000, 1800000000], m_rolling = Fin (3 / 2),
               m_decay_factor = Fin (1 / 2)\<rparr>,
            \<lparr>cleanup_CountSamples = 2, cleanup_AverageIntervals = 0\<rparr>)
   \<and> FPS \<lparr>m_sample_times = [0, 500000000, 1500000000, 1800000000], m_rolling = Fin 1,
           m_decay_factor = Fin (1 / 2)\<rparr>
         \<lparr>cleanup_CountSamples = 1, cleanup_AverageIntervals = 0\<rparr>
         2000000000 (Fin 1) False CountSamples
     = Inr (Fin 2,
            \<lparr>m_sample_times = [0, 500000000, 1500000000, 1800000000], m_rolling = Fin (3 / 2),
               m_decay_factor = Fin (1 / 2)\<rparr>,
            \<lparr>cleanup_CountSamples = 2, cleanup_AverageIntervals = 0\<rparr>)
   \<and> fmul (Fin (1 - 1 / 2)) (Fin 2) \<noteq> Fin (3 / 2)"
proof -
  have sc: "scan_window 2000000000 (Fin 1) [0, 500000000, 1500000000, 1800000000] 3 0 = (1, 2)"
    by (simp add: scan_window.simps outside_window_def NanosecondsBetween_def)
  show ?thesis
    by (simp add: AddSample_def SetDecayFactor_def FPSEstimator_ctor_def FPS_def
        FPS_CountSamples_def Let_def sc fsub_def)
qed

text \<open>
  Claim C10, amended. A new estimator has an empty history, a rolling estimate of \<open>0\<close> and
  a decay factor of \<open>0\<close>. After any calls on it among which no query, soft or not, has
  succeeded, with the decay factor at a finite \<open>d\<close>, a successful soft query with a finite
  positive window returns \<open>(1 - d)\<close> times the instantaneous estimate of that query (the
  count over the window for \<^verbatim>\<open>CountSamples\<close>, the inverse of the average interval for
  \<^verbatim>\<open>AverageIntervals\<close>), and that is the new rolling estimate.
\<close>

theorem first_successful_query_after_construction:
  "m_sample_times FPSEstimator_ctor = []
   \<and> m_rolling FPSEstimator_ctor = Fin 0
   \<and> m_decay_factor FPSEstimator_ctor = Fin 0
   \<and> (run_unsuccessful calls (FPSEstimator_ctor, st0) = Some (est, st)
        \<and> m_decay_factor est = Fin d
        \<and> 0 < r
        \<and> \<not> insufficient_data est now (Fin r) method
        \<and> scan_window now (Fin r) (m_sample_times est)
             (int (length (m_sample_times est)) - 1) 0 = (i, n)
        \<and> FPS est st now (Fin r) True method = Inr (v, est', st') \<longrightarrow>
      (\<exists>instantaneous.
          FPS est st now (Fin r) False method = Inr (instantaneous, est', st')
          \<and> instantaneous =
              (if method = CountSamples then fdiv (Fin (real n)) (Fin r)
               else fdiv (Fin 1000000)
                      (fdiv (NanosecondsBetween (last (m_sample_times est))
                                                (m_sample_times est ! nat i))
                            (Fin (real n))))
          \<and> v = fmul (Fin (1 - d)) instantaneous
          \<and> m_rolling est' = v))"
proof (intro conjI impI)
  assume h: "run_unsuccessful calls (FPSEstimator_ctor, st0) = Some (est, st)
        \<and> m_decay_factor est = Fin d
        \<and> 0 < r
        \<and> \<not> insufficient_data est now (Fin r) method
        \<and> scan_window now (Fin r) (m_sample_times est)
             (int (length (m_sample_times est)) - 1) 0 = (i, n)
        \<and> FPS est st now (Fin r) True method = Inr (v, est', st')"
  then have run: "run_unsuccessful calls (FPSEstimator_ctor, st0) = Some (est, st)"
    and ret: "FPS est st now (Fin r) True method = Inr (v, est', st')"
    and ok: "\<not> insufficient_data est now (Fin r) method" and pos: "0 < r"
    and dec: "m_decay_factor est = Fin d"
    and sc: "scan_window now (Fin r) (m_sample_times est)
             (int (length (m_sample_times est)) - 1) 0 = (i, n)"
    by simp_all
  from run have "m_rolling est = m_rolling FPSEstimator_ctor"
    by (rule run_unsuccessful_rolling)
  then have roll: "m_rolling est = Fin 0"
    by (simp add: FPSEstimator_ctor_def)
  from FPS_success_shape [OF ret ok pos] obtain inst where
    inst: "FPS est st now (Fin r) False method = Inr (inst, est', st')"
    and r': "m_rolling est' = fadd (fmul (Fin d) (Fin 0)) (fmul (fsub (Fin 1) (Fin d)) inst)"
    and v: "v = m_rolling est'"
    by (auto simp: roll dec)
  have val: "inst =
     (if method = CountSamples then fdiv (Fin (real n)) (Fin r)
      else fdiv (Fin 1000000)
             (fdiv (NanosecondsBetween (last (m_sample_times est)) (m_sample_times est ! nat i))
                   (Fin (real n))))"
    using inst ok sc by (rule FPS_instantaneous_value)
  have "m_rolling est' = fmul (Fin (1 - d)) inst"
    unfolding r' fadd_fmul_zero by (simp add: fsub_def)
  with inst val v show "\<exists>instantaneous.
          FPS est st now (Fin r) False method = Inr (instantaneous, est', st')
          \<and> instantaneous =
              (if method = CountSamples then fdiv (Fin (real n)) (Fin r)
               else fdiv (Fin 1000000)
                      (fdiv (NanosecondsBetween (last (m_sample_times est))
                                                (m_sample_times est ! nat i))
                            (Fin (real n))))
          \<and> v = fmul (Fin (1 - d)) instantaneous
          \<and> m_rolling est' = v"
    by auto
qed (simp_all add: FPSEstimator_ctor_def)

theorem first_successful_query_after_construction_witness:
  "run_unsuccessful
     [Call_SetDecayFactor (Fin (1 / 4)), Call_FPS 0 (Fin 1) True CountSamples,
      Call_AddSample 0, Call_AddSample 500000000,
      Call_FPS 600000000 (Fin 1) False AverageIntervals,
      Call_AddSample 1500000000, Call_AddSample 1800000000]
     (FPSEstimator_ctor, \<lparr>cleanup_CountSamples = 0, cleanup_AverageIntervals = 0\<rparr>)
     = Some (\<lparr>m_sample_times = [0, 500000000, 1500000000, 1800000000], m_rolling = Fin 0,
               m_decay_factor = Fin (1 / 4)\<rparr>,
             \<lparr>cleanup_CountSamples = 0, cleanup_AverageIntervals = 0\<rparr>)
   \<and> FPS \<lparr>m_sample_times = [0, 500000000, 1500000000, 1800000000], m_rolling = Fin 0,
           m_decay_factor = Fin (1 / 4)\<rparr>
         \<lparr>cleanup_CountSamples = 0, cleanup_AverageIntervals = 0\<rparr>
         2000000000 (Fin 1) True CountSamples
       = Inr (Fin (3 / 2),
              \<lparr>m_sample_times = [0, 500000000, 1500000000, 1800000000],
                 m_rolling = Fin (3 / 2), m_decay_factor = Fin (1 / 4)\<rparr>,
              \<lparr>cleanup_CountSamples = 1, cleanup_AverageIntervals = 0\<rparr>)
   \<and> FPS \<lparr>m_sample_times = [0, 500000000, 1500000000, 1800000000], m_rolling = Fin 0,
           m_decay_factor = Fin (1 / 4)\<rparr>
         \<lparr>cleanup_CountSamples = 0, cleanup_AverageIntervals = 0\<rparr>
         2000000000 (Fin 1) False CountSamples
       = Inr (Fin 2,
              \<lparr>m_sample_times = [0, 500000000, 1500000000, 1800000000],
                 m_rolling = Fin (3 / 2), m_decay_factor = Fin (1 / 4)\<rparr>,
              \<lparr>cleanup_CountSamples = 1, cleanup_AverageIntervals = 0\<rparr>)
   \<and> Fin (3 / 2) = fmul (Fin (1 - 1 / 4)) (Fin 2)"
proof -
  let ?calls = "[Call_SetDecayFactor (Fin (1 / 4)), Call_FPS 0 (Fin 1) True CountSamples,
      Call_AddSample 0, Call_AddSample 500000000,
      Call_FPS 600000000 (Fin 1) False AverageIntervals,
      Call_AddSample 1500000000, Call_AddSample 1800000000]"
  let ?st = "\<lparr>cleanup_CountSamples = 0, cleanup_AverageIntervals = 0\<rparr>"
  let ?st' = "\<lparr>cleanup_CountSamples = 1, cleanup_AverageIntervals = 0\<rparr>"
  let ?est = "\<lparr>m_sample_times = [0, 500000000, 1500000000, 1800000000], m_rolling = Fin 0,
               m_decay_factor = Fin (1 / 4)\<rparr>"
  let ?est' = "\<lparr>m_sample_times = [0, 500000000, 1500000000, 1800000000],
                 m_rolling = Fin (3 / 2), m_decay_factor = Fin (1 / 4)\<rparr>"
  have sc0: "scan_window 600000000 (Fin 1) [0, 500000000] 1 0 = (- 1, 2)"
    by (simp add: scan_window.simps outside_window_def NanosecondsBetween_def)
  have run: "run_unsuccessful ?calls (FPSEstimator_ctor, ?st) = Some (?est, ?st)"
    by (simp add: FPSEstimator_ctor_def SetDecayFactor_def AddSample_def FPS_def
        FPS_AverageIntervals_def insufficient_data_def Let_def sc0 CountSamples_def
        AverageIntervals_def)
  have sc: "scan_window 2000000000 (Fin 1) [0, 500000000, 1500000000, 1800000000] 3 0 = (1, 2)"
    by (simp add: scan_window.simps outside_window_def NanosecondsBetween_def)
  then have sc': "scan_window 2000000000 (Fin 1) (m_sample_times ?est)
      (int (length (m_sample_times ?est)) - 1) 0 = (1, 2)"
    by simp
  have soft: "FPS ?est ?st 2000000000 (Fin 1) True CountSamples = Inr (Fin (3 / 2), ?est', ?st')"
    by (simp add: FPS_def FPS_CountSamples_def Let_def sc fsub_def)
  have ok: "\<not> insufficient_data ?est 2000000000 (Fin 1) CountSamples"
    by (simp add: insufficient_data_def Let_def sc)
  have dec: "m_decay_factor ?est = Fin (1 / 4)" by simp
  have pos: "(0 :: real) < 1" by simp
  have hyp: "run_unsuccessful ?calls (FPSEstimator_ctor, ?st) = Some (?est, ?st)
        \<and> m_decay_factor ?est = Fin (1 / 4)
        \<and> (0 :: real) < 1
        \<and> \<not> insufficient_data ?est 2000000000 (Fin 1) CountSamples
        \<and> scan_window 2000000000 (Fin 1) (m_sample_times ?est)
             (int (length (m_sample_times ?est)) - 1) 0 = (1, 2)
        \<and> FPS ?est ?st 2000000000 (Fin 1) True CountSamples = Inr (Fin (3 / 2), ?est', ?st')"
    using run dec pos ok sc' soft by (intro conjI)
  note at_witness = first_successful_query_after_construction
      [of ?calls ?st ?est ?st "1 / 4" 1 2000000000 CountSamples 1 2 "Fin (3 / 2)" ?est' ?st']
  from at_witness [THEN conjunct2, THEN conjunct2, THEN conjunct2, THEN mp, OF hyp]
  obtain inst where
    hard: "FPS ?est ?st 2000000000 (Fin 1) False CountSamples = Inr (inst, ?est', ?st')"
    and val: "inst = (if CountSamples = CountSamples then fdiv (Fin (real (2 :: nat))) (Fin 1)
               else fdiv (Fin 1000000)
                      (fdiv (NanosecondsBetween (last (m_sample_times ?est))
                                                (m_sample_times ?est ! nat 1))
                            (Fin (real (2 :: nat)))))"
    and v: "Fin (3 / 2) = fmul (Fin (1 - 1 / 4)) inst"
    by blast
  from val have "inst = Fin 2" by simp
  with hard v have "FPS ?est ?st 2000000000 (Fin 1) False CountSamples = Inr (Fin 2, ?est', ?st')"
    and "Fin (3 / 2) = fmul (Fin (1 - 1 / 4)) (Fin 2)"
    by blast+
  with run soft show ?thesis by (intro conjI)
qed

end
